theory Spec2Isabelle
  imports Main "HOL-Library.Word"
begin

section \<open>JavaScript strings\<close>

text \<open>
  A JavaScript string is a sequence of UTF-16 code units. The literals of the two
  scripts are ASCII; \<open>js\<close> turns such a literal into its code units.
\<close>

type_synonym code_unit = "16 word"
type_synonym js_string = "code_unit list"

definition js :: "string \<Rightarrow> js_string" where
  "js s = map of_char s"

text \<open>
  \<^verbatim>\<open>String.prototype.trim\<close> removes the leading and trailing code units that are
  WhiteSpace or LineTerminator in ECMAScript: TAB, LF, VT, FF, CR, SP, NBSP, the
  Unicode space separators (U+1680, U+2000 .. U+200A, U+202F, U+205F, U+3000), the line
  and paragraph separators U+2028 and U+2029, and the byte order mark U+FEFF. All of
  them are single code units.
\<close>

definition is_white_space :: "code_unit \<Rightarrow> bool" where
  "is_white_space c \<longleftrightarrow>
     c = 0x0009 \<or> c = 0x000A \<or> c = 0x000B \<or> c = 0x000C \<or> c = 0x000D \<or>
     c = 0x0020 \<or> c = 0x00A0 \<or> c = 0x1680 \<or> (0x2000 \<le> c \<and> c \<le> 0x200A) \<or>
     c = 0x2028 \<or> c = 0x2029 \<or> c = 0x202F \<or> c = 0x205F \<or> c = 0x3000 \<or>
     c = 0xFEFF"

definition trim :: "js_string \<Rightarrow> js_string" where
  "trim s = rev (dropWhile is_white_space (rev (dropWhile is_white_space s)))"


section \<open>The document\<close>

text \<open>
  The scripts see the page through \<^verbatim>\<open>document.getElementById\<close> and
  \<^verbatim>\<open>document.querySelectorAll\<close>. The model keeps every element in a list; a
  reference to an element is its position, which never changes. The elements that are
  in the document are the connected ones, and they stand in the list in tree order. An
  element carries its parent and what the scripts read or write or what decides the
  outcome of their calls: its id, name and classes, \<^verbatim>\<open>style.width\<close>, its text, and
  for a form control its \<^verbatim>\<open>value\<close>, the value a form reset gives it, and its
  \<^verbatim>\<open>form\<close> attribute.
\<close>

type_synonym node_ref = nat

text \<open>
  \<open>Control\<close> is a listed element with a string value (a text input, a textarea, a
  select, a button); \<open>Valueless\<close> a listed element without one (a fieldset, an
  object); \<open>Img\<close> an image. A form exposes the three of them by id and by name; an
  image button, which no form exposes, is none of them. The \<open>defaultValue\<close> of a
  control is the value a form reset leaves it with: for a button, which a reset does not
  touch, its value.
\<close>

datatype kind = Form | Control | Valueless | Img | Other

record element =
  elem_id :: "js_string option"
  elem_name :: "js_string option"
  form_attr :: "js_string option"
  classes :: "js_string list"
  style_width :: js_string
  textContent :: js_string
  el_kind :: kind
  el_value :: js_string
  defaultValue :: js_string
  parent :: "node_ref option"
  connected :: bool

type_synonym document = "element list"

fun first_index :: "('a \<Rightarrow> bool) \<Rightarrow> 'a list \<Rightarrow> nat option" where
  "first_index P [] = None"
| "first_index P (x # xs) = (if P x then Some 0 else map_option Suc (first_index P xs))"

text \<open>\<^verbatim>\<open>document.getElementById(i)\<close>: the first element of the document, in tree
  order, whose id is \<open>i\<close>, or null (\<open>None\<close>).\<close>

definition getElementById :: "document \<Rightarrow> js_string \<Rightarrow> node_ref option" where
  "getElementById d i = first_index (\<lambda>e. connected e \<and> elem_id e = Some i) d"

text \<open>\<^verbatim>\<open>document.querySelectorAll('.c')\<close> for a class selector: the static list of
  the elements of the document bearing class \<open>c\<close>, in tree order.\<close>

definition querySelectorAll :: "document \<Rightarrow> js_string \<Rightarrow> node_ref list" where
  "querySelectorAll d c =
     filter (\<lambda>k. connected (d ! k) \<and> c \<in> set (classes (d ! k))) [0..<length d]"

text \<open>
  Walking up from \<open>p\<close>, parent by parent. In a tree the walk ends after fewer steps
  than there are elements; the first argument bounds it.
\<close>

fun descends :: "nat \<Rightarrow> document \<Rightarrow> node_ref \<Rightarrow> node_ref option \<Rightarrow> bool" where
  "descends fuel d k None = False"
| "descends 0 d k (Some p) = False"
| "descends (Suc fuel) d k (Some p) =
     (p = k \<or> (p < length d \<and> descends fuel d k (parent (d ! p))))"

text \<open>Element \<open>j\<close> is a child of \<open>k\<close>, or a child of a child, and so on.\<close>

definition is_descendant :: "document \<Rightarrow> node_ref \<Rightarrow> node_ref \<Rightarrow> bool" where
  "is_descendant d k j = descends (length d) d k (parent (d ! j))"

fun nearest_form :: "nat \<Rightarrow> document \<Rightarrow> node_ref option \<Rightarrow> node_ref option" where
  "nearest_form fuel d None = None"
| "nearest_form 0 d (Some p) = None"
| "nearest_form (Suc fuel) d (Some p) =
     (if p < length d
      then (if el_kind (d ! p) = Form then Some p
            else nearest_form fuel d (parent (d ! p)))
      else None)"

text \<open>
  The form owner of an element: for a connected listed element with a \<^verbatim>\<open>form\<close>
  attribute, the first element of the document with that id if it is a form; otherwise
  the nearest form among the ancestors. Other elements have none.
\<close>

definition form_by_id :: "document \<Rightarrow> js_string \<Rightarrow> node_ref option" where
  "form_by_id d i =
     (case getElementById d i of
        None \<Rightarrow> None
      | Some f \<Rightarrow> if el_kind (d ! f) = Form then Some f else None)"

definition form_above :: "document \<Rightarrow> node_ref \<Rightarrow> node_ref option" where
  "form_above d j = nearest_form (length d) d (parent (d ! j))"

definition form_owner :: "document \<Rightarrow> node_ref \<Rightarrow> node_ref option" where
  "form_owner d j =
     (if el_kind (d ! j) = Control \<or> el_kind (d ! j) = Valueless
      then (case form_attr (d ! j) of
              None \<Rightarrow> form_above d j
            | Some i \<Rightarrow> if connected (d ! j) then form_by_id d i else form_above d j)
      else if el_kind (d ! j) = Img then form_above d j
      else None)"

text \<open>
  The page is the document together with the timer queue of the event loop, a clock in
  milliseconds, and the trace of the mutations the scripts have performed. A timer's
  callback is the closure of the source, with the variables it captured.
\<close>

datatype mutation =
    SetTextContent node_ref js_string
  | FormReset node_ref
  | SetStyleWidth node_ref js_string

datatype callback = RestoreWidth node_ref js_string

record page =
  doc :: document
  clock :: nat
  timers :: "(nat \<times> callback) list"
  trace :: "mutation list"

datatype js_error = TypeError

datatype completion = Normal | Throw js_error


section \<open>The contact form's submit handler\<close>

text \<open>A submit event as the browser fires it: cancelable, with its canceled flag.\<close>

record submit_event =
  canceled :: bool

definition preventDefault :: "submit_event \<Rightarrow> submit_event" where
  "preventDefault e = e\<lparr>canceled := True\<rparr>"

text \<open>After the listeners have run, the browser submits the form (navigates) unless
  the event was canceled.\<close>

definition default_submission_runs :: "submit_event \<Rightarrow> bool" where
  "default_submission_runs e \<longleftrightarrow> \<not> canceled e"

text \<open>\<^verbatim>\<open>document.getElementById(i).value.trim()\<close>. Reading \<^verbatim>\<open>value\<close> of null
  throws, and so does calling \<^verbatim>\<open>trim\<close> on the undefined \<^verbatim>\<open>value\<close> of an
  element that has no string value.\<close>

definition value_trim :: "document \<Rightarrow> js_string \<Rightarrow> js_error + js_string" where
  "value_trim d i =
     (case getElementById d i of
        None \<Rightarrow> Inl TypeError
      | Some k \<Rightarrow>
          (case el_kind (d ! k) of
             Control \<Rightarrow> Inr (trim (el_value (d ! k)))
           | _ \<Rightarrow> Inl TypeError))"

text \<open>
  Assigning to \<^verbatim>\<open>textContent\<close> replaces all the children of the element by one
  text. The element children it had, with all that was below them, leave the document:
  each former child becomes the root of a tree of its own.
\<close>

definition detach :: "node_ref \<Rightarrow> element \<Rightarrow> element" where
  "detach k e =
     e\<lparr>parent := (if parent e = Some k then None else parent e), connected := False\<rparr>"

definition remove_children :: "node_ref \<Rightarrow> document \<Rightarrow> document" where
  "remove_children k d =
     map (\<lambda>(j, e). if is_descendant d k j then detach k e else e) (enumerate 0 d)"

definition assign_text :: "node_ref \<Rightarrow> js_string \<Rightarrow> document \<Rightarrow> document" where
  "assign_text k txt d =
     (let d1 = remove_children k d in d1[k := (d1 ! k)\<lparr>textContent := txt\<rparr>])"

text \<open>\<^verbatim>\<open>document.getElementById(i).textContent = txt\<close>.\<close>

definition set_textContent :: "js_string \<Rightarrow> js_string \<Rightarrow> page \<Rightarrow> js_error + page" where
  "set_textContent i txt s =
     (case getElementById (doc s) i of
        None \<Rightarrow> Inl TypeError
      | Some k \<Rightarrow>
          Inr (s\<lparr>doc := assign_text k txt (doc s),
                 trace := trace s @ [SetTextContent k txt]\<rparr>))"

text \<open>A form's reset gives every control the form owns its default value back.\<close>

definition form_reset :: "node_ref \<Rightarrow> document \<Rightarrow> document" where
  "form_reset f d =
     map (\<lambda>(j, e). if el_kind e = Control \<and> form_owner d j = Some f
                    then e\<lparr>el_value := defaultValue e\<rparr> else e)
       (enumerate 0 d)"

text \<open>
  A form exposes the listed elements and images it owns as properties, under their ids
  and names, and these come before the form's own methods: on a form that owns an
  element called \<^verbatim>\<open>reset\<close>, \<^verbatim>\<open>this.reset\<close> is that element.
\<close>

definition exposes :: "document \<Rightarrow> node_ref \<Rightarrow> js_string \<Rightarrow> bool" where
  "exposes d f nm =
     list_ex (\<lambda>j. (el_kind (d ! j) = Control \<or> el_kind (d ! j) = Valueless
                     \<or> el_kind (d ! j) = Img)
                  \<and> form_owner d j = Some f
                  \<and> (elem_id (d ! j) = Some nm \<or> elem_name (d ! j) = Some nm))
       [0..<length d]"

text \<open>\<^verbatim>\<open>this.reset()\<close>: only a form has the method, and calling an element that
  stands in its place throws.\<close>

definition reset :: "node_ref \<Rightarrow> page \<Rightarrow> js_error + page" where
  "reset this s =
     (if this < length (doc s) \<and> el_kind (doc s ! this) = Form
         \<and> \<not> exposes (doc s) this (js ''reset'')
      then Inr (s\<lparr>doc := form_reset this (doc s), trace := trace s @ [FormReset this]\<rparr>)
      else Inl TypeError)"

text \<open>
  The listener of the source, called with \<open>this\<close> the element it was added to and \<open>e\<close>
  the event. The empty string is the only falsy string, so \<^verbatim>\<open>!name\<close> is
  \<open>name = []\<close>. A thrown error leaves the mutations made before it in place.
\<close>

definition submit_handler ::
  "node_ref \<Rightarrow> submit_event \<Rightarrow> page \<Rightarrow> completion \<times> submit_event \<times> page" where
  "submit_handler this e s =
     (let e1 = preventDefault e in
      case value_trim (doc s) (js ''name'') of
        Inl err \<Rightarrow> (Throw err, e1, s)
      | Inr name \<Rightarrow>
      (case value_trim (doc s) (js ''email'') of
        Inl err \<Rightarrow> (Throw err, e1, s)
      | Inr email \<Rightarrow>
      (case value_trim (doc s) (js ''message'') of
        Inl err \<Rightarrow> (Throw err, e1, s)
      | Inr message \<Rightarrow>
      if name = [] \<or> email = [] \<or> message = [] then
        (case set_textContent (js ''form-message'') (js ''Please fill in all fields.'') s of
           Inl err \<Rightarrow> (Throw err, e1, s)
         | Inr s1 \<Rightarrow> (Normal, e1, s1))
      else
        (case set_textContent (js ''form-message'') (js ''Thank you for reaching out!'') s of
           Inl err \<Rightarrow> (Throw err, e1, s)
         | Inr s1 \<Rightarrow>
             (case reset this s1 of
                Inl err \<Rightarrow> (Throw err, e1, s1)
              | Inr s2 \<Rightarrow> (Normal, e1, s2))))))"

text \<open>The script's top level adds the listener to the element with id
  \<^verbatim>\<open>contact-form\<close>; on a page without one it throws and no listener exists.\<close>

definition listener_target :: "document \<Rightarrow> js_error + node_ref" where
  "listener_target d =
     (case getElementById d (js ''contact-form'') of
        None \<Rightarrow> Inl TypeError
      | Some f \<Rightarrow> Inr f)"


section \<open>The progress-bar animator\<close>

definition set_style_width :: "node_ref \<Rightarrow> js_string \<Rightarrow> page \<Rightarrow> page" where
  "set_style_width k w s =
     s\<lparr>doc := (doc s)[k := (doc s ! k)\<lparr>style_width := w\<rparr>],
       trace := trace s @ [SetStyleWidth k w]\<rparr>"

text \<open>\<^verbatim>\<open>setTimeout(cb, delay)\<close> queues \<open>cb\<close> to run once the clock has reached
  now + delay.\<close>

definition setTimeout :: "callback \<Rightarrow> nat \<Rightarrow> page \<Rightarrow> page" where
  "setTimeout cb delay s = s\<lparr>timers := timers s @ [(clock s + delay, cb)]\<rparr>"

text \<open>The body of the \<^verbatim>\<open>forEach\<close> callback, for one bar.\<close>

definition animate_bar :: "page \<Rightarrow> node_ref \<Rightarrow> page" where
  "animate_bar s bar =
     (let width = style_width (doc s ! bar);
          s1 = set_style_width bar (js ''0%'') s
      in setTimeout (RestoreWidth bar width) 300 s1)"

text \<open>The \<^verbatim>\<open>DOMContentLoaded\<close> listener.\<close>

definition on_DOMContentLoaded :: "page \<Rightarrow> page" where
  "on_DOMContentLoaded s =
     (let bars = querySelectorAll (doc s) (js ''progress'')
      in foldl animate_bar s bars)"

fun run_callback :: "page \<Rightarrow> nat \<times> callback \<Rightarrow> page" where
  "run_callback s (due, RestoreWidth bar width) = set_style_width bar width s"

text \<open>
  The event loop lets \<open>dt\<close> milliseconds pass: the timers that have come due by then
  run, earliest first, and timers due at the same time run in the order they were set.
\<close>

definition advance :: "nat \<Rightarrow> page \<Rightarrow> page" where
  "advance dt s =
     (let now = clock s + dt;
          expired = filter (\<lambda>t. fst t \<le> now) (timers s);
          pending = filter (\<lambda>t. \<not> fst t \<le> now) (timers s)
      in foldl run_callback (s\<lparr>clock := now, timers := pending\<rparr>) (sort_key fst expired))"

text \<open>The page when the document has just been parsed: no timer is pending.\<close>

definition ready_page :: "document \<Rightarrow> nat \<Rightarrow> page" where
  "ready_page d now = \<lparr>doc = d, clock = now, timers = [], trace = []\<rparr>"


section \<open>The host page\<close>

text \<open>
  Modelled from the spec: the page's markup is not among the sources. The spec has the
  host page expose a form with id \<^verbatim>\<open>contact-form\<close> containing fields with ids
  \<^verbatim>\<open>name\<close>, \<^verbatim>\<open>email\<close> and \<^verbatim>\<open>message\<close>, whose default state is empty,
  and a status element with id \<^verbatim>\<open>form-message\<close>. The form is the first element
  of the modelled page and the status element its fifth.
\<close>

definition form_ref :: node_ref where
  "form_ref = 0"

definition status_ref :: node_ref where
  "status_ref = 4"

definition form_element :: element where
  "form_element =
     \<lparr>elem_id = Some (js ''contact-form''), elem_name = None, form_attr = None,
      classes = [], style_width = [], textContent = [], el_kind = Form, el_value = [],
      defaultValue = [], parent = None, connected = True\<rparr>"

text \<open>Modelled from the spec: a field inside the form with id \<open>i\<close>, holding \<open>v\<close>,
  whose default value is empty.\<close>

definition field :: "js_string \<Rightarrow> js_string \<Rightarrow> element" where
  "field i v =
     \<lparr>elem_id = Some i, elem_name = None, form_attr = None, classes = [],
      style_width = [], textContent = [], el_kind = Control, el_value = v,
      defaultValue = [], parent = Some form_ref, connected = True\<rparr>"

definition status_element :: "js_string \<Rightarrow> element" where
  "status_element t =
     \<lparr>elem_id = Some (js ''form-message''), elem_name = None, form_attr = None,
      classes = [], style_width = [], textContent = t, el_kind = Other, el_value = [],
      defaultValue = [], parent = None, connected = True\<rparr>"

text \<open>Modelled from the spec: the host page with \<open>n\<close>, \<open>e\<close> and \<open>m\<close> entered in the
  three fields, \<open>t\<close> the status text, and \<open>rest\<close> the page's other elements, which
  are arbitrary.\<close>

definition host_document ::
  "js_string \<Rightarrow> js_string \<Rightarrow> js_string \<Rightarrow> js_string \<Rightarrow> document \<Rightarrow> document" where
  "host_document n e m t rest =
     [form_element, field (js ''name'') n, field (js ''email'') e,
      field (js ''message'') m, status_element t] @ rest"

text \<open>An element as a child of the status element.\<close>

definition inside_status :: "element \<Rightarrow> element" where
  "inside_status x = x\<lparr>parent := Some status_ref\<rparr>"

text \<open>The elements of a host page other than the form, its fields and the status
  element.\<close>

definition others :: "document \<Rightarrow> document" where
  "others d = drop 5 d"

text \<open>The page \<open>s\<close> showing the host document.\<close>

definition host_page ::
  "js_string \<Rightarrow> js_string \<Rightarrow> js_string \<Rightarrow> js_string \<Rightarrow> document \<Rightarrow> page \<Rightarrow> page" where
  "host_page n e m t rest s = s\<lparr>doc := host_document n e m t rest\<rparr>"

text \<open>An element of class \<^verbatim>\<open>progress\<close> whose inline style configures the width \<open>w\<close>.\<close>

definition progress_bar :: "js_string \<Rightarrow> element" where
  "progress_bar w =
     \<lparr>elem_id = None, elem_name = None, form_attr = None, classes = [js ''progress''],
      style_width = w, textContent = [], el_kind = Other, el_value = [],
      defaultValue = [], parent = None, connected = True\<rparr>"


section \<open>Observations\<close>

text \<open>What a user or a test reads off the page.\<close>

definition text_of :: "document \<Rightarrow> js_string \<Rightarrow> js_string option" where
  "text_of d i = map_option (\<lambda>k. textContent (d ! k)) (getElementById d i)"

definition value_of :: "document \<Rightarrow> js_string \<Rightarrow> js_string option" where
  "value_of d i = map_option (\<lambda>k. el_value (d ! k)) (getElementById d i)"

text \<open>The three parts of what a run of the submit handler leaves behind.\<close>

definition completion_of :: "completion \<times> submit_event \<times> page \<Rightarrow> completion" where
  "completion_of r = fst r"

definition event_after :: "completion \<times> submit_event \<times> page \<Rightarrow> submit_event" where
  "event_after r = fst (snd r)"

definition page_after :: "completion \<times> submit_event \<times> page \<Rightarrow> page" where
  "page_after r = snd (snd r)"

text \<open>The mutations a run from \<open>s\<close> to \<open>s'\<close> has added to the trace.\<close>

definition performed :: "page \<Rightarrow> page \<Rightarrow> mutation list" where
  "performed s s' = drop (length (trace s)) (trace s')"




section \<open>Facts about the document operations\<close>

lemma length_remove_children: "length (remove_children k d) = length d"
  by (simp add: remove_children_def)

lemma nth_remove_children:
  "j < length d \<Longrightarrow>
   remove_children k d ! j = (if is_descendant d k j then detach k (d ! j) else d ! j)"
  by (simp add: remove_children_def nth_enumerate_eq)



lemma host_lookups:
  "getElementById (host_document n e m t rest) (js ''contact-form'') = Some form_ref"
  "getElementById (host_document n e m t rest) (js ''name'') = Some 1"
  "getElementById (host_document n e m t rest) (js ''email'') = Some 2"
  "getElementById (host_document n e m t rest) (js ''message'') = Some 3"
  "getElementById (host_document n e m t rest) (js ''form-message'') = Some status_ref"
  by (simp_all add: getElementById_def host_document_def form_element_def field_def
      status_element_def js_def form_ref_def status_ref_def)

lemma host_top_not_descendant:
  "j < 5 \<Longrightarrow> \<not> is_descendant (host_document n e m t rest) status_ref j"
proof -
  assume "j < 5"
  then consider "j = 0" | "j = 1" | "j = 2" | "j = 3" | "j = 4"
    by linarith
  then show ?thesis
    by cases
      (simp_all add: is_descendant_def host_document_def form_element_def field_def
        status_element_def form_ref_def status_ref_def)
qed

lemma host_nth_top:
  "j < 5 \<Longrightarrow> host_document n e m t rest ! j = host_document n e m t [] ! j"
proof -
  assume "j < 5"
  then consider "j = 0" | "j = 1" | "j = 2" | "j = 3" | "j = 4"
    by linarith
  then show ?thesis
    by cases (simp_all add: host_document_def)
qed

lemma host_split: "host_document n e m t rest = host_document n e m t [] @ rest"
  by (simp add: host_document_def)

lemma length_host_top: "length (host_document n e m t []) = 5"
  by (simp add: host_document_def)

lemma host_nth_rest:
  "\<not> j < 5 \<Longrightarrow> host_document n e m t rest ! j = rest ! (j - 5)"
  by (subst host_split) (simp add: nth_append length_host_top)

lemma length_host_document: "length (host_document n e m t rest) = 5 + length rest"
  by (simp add: host_document_def)

lemma length_written: "length (assign_text k txt d) = length d"
  by (simp add: assign_text_def Let_def length_remove_children)

lemma nth_written:
  "j < length d \<Longrightarrow>
   assign_text k txt d ! j =
     (if j = k then (remove_children k d ! k)\<lparr>textContent := txt\<rparr>
      else remove_children k d ! j)"
  by (cases "k < length d") (simp_all add: assign_text_def Let_def length_remove_children)





lemma written_elsewhere:
  "j < length d \<Longrightarrow> j \<noteq> k \<Longrightarrow> \<not> is_descendant d k j \<Longrightarrow> assign_text k txt d ! j = d ! j"
  by (simp add: nth_written nth_remove_children)











section \<open>Facts about trimming\<close>

lemma trim_white_space: "list_all is_white_space v \<Longrightarrow> trim v = []"
proof -
  assume "list_all is_white_space v"
  then have "\<forall>c\<in>set v. is_white_space c"
    by (simp add: list_all_iff)
  then have "dropWhile is_white_space v = []"
    by (simp only: dropWhile_eq_Nil_conv)
  then show ?thesis
    by (simp only: trim_def rev.simps dropWhile.simps)
qed

lemma trim_Nil: "trim [] = []"
  by (simp add: trim_def)

section \<open>The submit handler on the host page\<close>




lemma host_assign:
  "assign_text status_ref txt (host_document n e m t rest) =
     host_document n e m txt
       (others (assign_text status_ref txt (host_document n e m t rest)))"
proof (rule nth_equalityI)
  show "length (assign_text status_ref txt (host_document n e m t rest)) =
      length (host_document n e m txt
        (others (assign_text status_ref txt (host_document n e m t rest))))"
    by (simp add: length_written length_host_document others_def)
next
  fix j
  assume "j < length (assign_text status_ref txt (host_document n e m t rest))"
  then have j: "j < length (host_document n e m t rest)"
    by (simp add: length_written)
  let ?rest' = "others (assign_text status_ref txt (host_document n e m t rest))"
  show "assign_text status_ref txt (host_document n e m t rest) ! j =
      host_document n e m txt ?rest' ! j"
  proof (cases "j < 5")
    case True
    then consider "j = 0" | "j = 1" | "j = 2" | "j = 3" | "j = 4"
      by linarith
    then show ?thesis
    proof cases
      case 5
      have "assign_text status_ref txt (host_document n e m t rest) ! 4
          = (host_document n e m t rest ! 4)\<lparr>textContent := txt\<rparr>"
        using j 5 host_top_not_descendant [of 4 n e m t rest]
        by (simp add: nth_written nth_remove_children status_ref_def)
      then show ?thesis
        using 5 by (simp add: host_document_def status_element_def)
    qed (use j host_top_not_descendant [of j n e m t rest] in
          \<open>simp_all add: written_elsewhere status_ref_def host_document_def\<close>)
  next
    case False
    then show ?thesis
      using j
      by (simp add: host_nth_rest others_def length_written length_host_document)
  qed
qed


lemma host_values:
  "value_trim (host_document n e m t rest) (js ''name'') = Inr (trim n)"
  "value_trim (host_document n e m t rest) (js ''email'') = Inr (trim e)"
  "value_trim (host_document n e m t rest) (js ''message'') = Inr (trim m)"
  by (simp_all add: value_trim_def host_lookups) (simp_all add: host_document_def field_def)

lemma host_observed:
  "text_of (host_document n e m t rest) (js ''form-message'') = Some t"
  "value_of (host_document n e m t rest) (js ''name'') = Some n"
  "value_of (host_document n e m t rest) (js ''email'') = Some e"
  "value_of (host_document n e m t rest) (js ''message'') = Some m"
  by (simp_all add: text_of_def value_of_def host_lookups)
    (simp_all add: host_document_def field_def status_element_def status_ref_def)

lemma host_set_status:
  "doc s = host_document n e m t rest \<Longrightarrow>
   set_textContent (js ''form-message'') txt s =
     Inr (s\<lparr>doc := assign_text status_ref txt (host_document n e m t rest),
            trace := trace s @ [SetTextContent status_ref txt]\<rparr>)"
  by (simp add: set_textContent_def host_lookups)

lemma host_reset_callable:
  assumes "doc s = host_document n e m t rest"
    and "\<not> exposes (host_document n e m t rest) form_ref (js ''reset'')"
  shows "reset form_ref s =
     Inr (s\<lparr>doc := form_reset form_ref (host_document n e m t rest),
            trace := trace s @ [FormReset form_ref]\<rparr>)"
  using assms
  by (simp add: reset_def length_host_document)
    (simp add: host_document_def form_element_def form_ref_def)

lemma host_reset_shadowed:
  assumes "doc s = host_document n e m t rest"
    and "exposes (host_document n e m t rest) form_ref (js ''reset'')"
  shows "reset form_ref s = Inl TypeError"
  using assms by (simp add: reset_def)

lemma doc_host_page: "doc (host_page n e m t rest s) = host_document n e m t rest"
  by (simp add: host_page_def)

lemma trace_host_page: "trace (host_page n e m t rest s) = trace s"
  by (simp add: host_page_def)


lemma submit_rejected:
  "doc s = host_document n e m t rest \<Longrightarrow> trim n = [] \<or> trim e = [] \<or> trim m = [] \<Longrightarrow>
   submit_handler this ev s =
     (Normal, preventDefault ev,
      s\<lparr>doc := assign_text status_ref (js ''Please fill in all fields.'')
                (host_document n e m t rest),
        trace := trace s @ [SetTextContent status_ref (js ''Please fill in all fields.'')]\<rparr>)"
  unfolding submit_handler_def Let_def
  by (simp add: host_values host_set_status)

lemma submit_filled:
  assumes "doc s = host_document n e m t rest"
    and "trim n \<noteq> []" and "trim e \<noteq> []" and "trim m \<noteq> []"
  shows "submit_handler form_ref ev s =
     (if exposes (assign_text status_ref (js ''Thank you for reaching out!'')
            (host_document n e m t rest)) form_ref (js ''reset'')
      then (Throw TypeError, preventDefault ev,
            s\<lparr>doc := assign_text status_ref (js ''Thank you for reaching out!'')
                      (host_document n e m t rest),
              trace := trace s @
                [SetTextContent status_ref (js ''Thank you for reaching out!'')]\<rparr>)
      else (Normal, preventDefault ev,
            s\<lparr>doc := form_reset form_ref
                      (assign_text status_ref (js ''Thank you for reaching out!'')
                        (host_document n e m t rest)),
              trace := trace s @
                [SetTextContent status_ref (js ''Thank you for reaching out!''),
                 FormReset form_ref]\<rparr>))"
proof -
  let ?thanks = "js ''Thank you for reaching out!''"
  let ?d1 = "assign_text status_ref ?thanks (host_document n e m t rest)"
  let ?s1 = "s\<lparr>doc := ?d1, trace := trace s @ [SetTextContent status_ref ?thanks]\<rparr>"
  have d1: "doc ?s1 = host_document n e m ?thanks (others ?d1)"
    using host_assign [of ?thanks n e m t rest] by simp
  have written: "set_textContent (js ''form-message'') ?thanks s = Inr ?s1"
    using assms(1) by (rule host_set_status)
  show ?thesis
  proof (cases "exposes ?d1 form_ref (js ''reset'')")
    case True
    then have "exposes (host_document n e m ?thanks (others ?d1)) form_ref (js ''reset'')"
      using host_assign [of ?thanks n e m t rest] by simp
    with d1 have "reset form_ref ?s1 = Inl TypeError"
      by (rule host_reset_shadowed)
    with True written assms show ?thesis
      unfolding submit_handler_def Let_def by (simp add: host_values)
  next
    case False
    then have "\<not> exposes (host_document n e m ?thanks (others ?d1)) form_ref (js ''reset'')"
      using host_assign [of ?thanks n e m t rest] by simp
    with d1 have "reset form_ref ?s1 =
        Inr (?s1\<lparr>doc := form_reset form_ref (host_document n e m ?thanks (others ?d1)),
                 trace := trace ?s1 @ [FormReset form_ref]\<rparr>)"
      by (rule host_reset_callable)
    then have "reset form_ref ?s1 =
        Inr (?s1\<lparr>doc := form_reset form_ref ?d1, trace := trace ?s1 @ [FormReset form_ref]\<rparr>)"
      using host_assign [of ?thanks n e m t rest] by simp
    with False written assms show ?thesis
      unfolding submit_handler_def Let_def by (simp add: host_values)
  qed
qed



text \<open>The document after the two branches, as a host document.\<close>

lemma rejected_document:
  "\<exists>rest'. length rest' = length rest \<and>
     assign_text status_ref txt (host_document n e m t rest) = host_document n e m txt rest'"
proof (intro exI conjI)
  show "assign_text status_ref txt (host_document n e m t rest) =
      host_document n e m txt (others (assign_text status_ref txt (host_document n e m t rest)))"
    by (rule host_assign)
  show "length (others (assign_text status_ref txt (host_document n e m t rest))) = length rest"
    by (simp add: others_def length_written length_host_document)
qed







text \<open>On a form that exposes an element called \<^verbatim>\<open>reset\<close> when line 14 runs,
  the handler throws there: the status text has been written, the fields keep their
  values.\<close>

lemma submit_shadowed:
  assumes "doc s = host_document n e m t rest"
    and "trim n \<noteq> []" and "trim e \<noteq> []" and "trim m \<noteq> []"
    and "exposes (assign_text status_ref (js ''Thank you for reaching out!'')
          (host_document n e m t rest)) form_ref (js ''reset'')"
  shows "submit_handler form_ref ev s =
     (Throw TypeError, preventDefault ev,
      s\<lparr>doc := assign_text status_ref (js ''Thank you for reaching out!'')
                (host_document n e m t rest),
        trace := trace s @
          [SetTextContent status_ref (js ''Thank you for reaching out!'')]\<rparr>)"
  using submit_filled [OF assms(1-4)] assms(5) by simp








section \<open>What the submit handler guarantees\<close>



text \<open>
  C2. Whenever at least one of the three trimmed values is empty, the handler returns
  normally, the status element reads "Please fill in all fields.", the three fields
  still hold the values that were entered, and no form reset has been performed.
\<close>

theorem submit_failure:
  assumes "trim n = [] \<or> trim e = [] \<or> trim m = []"
  shows "completion_of (submit_handler form_ref ev (host_page n e m t rest s)) = Normal
    \<and> text_of (doc (page_after (submit_handler form_ref ev (host_page n e m t rest s))))
        (js ''form-message'') = Some (js ''Please fill in all fields.'')
    \<and> value_of (doc (page_after (submit_handler form_ref ev (host_page n e m t rest s))))
        (js ''name'') = Some n
    \<and> value_of (doc (page_after (submit_handler form_ref ev (host_page n e m t rest s))))
        (js ''email'') = Some e
    \<and> value_of (doc (page_after (submit_handler form_ref ev (host_page n e m t rest s))))
        (js ''message'') = Some m
    \<and> FormReset form_ref \<notin> set (performed (host_page n e m t rest s)
          (page_after (submit_handler form_ref ev (host_page n e m t rest s))))"
proof -
  obtain rest' where "assign_text status_ref (js ''Please fill in all fields.'')
      (host_document n e m t rest)
    = host_document n e m (js ''Please fill in all fields.'') rest'"
    using rejected_document by blast
  then show ?thesis
    using assms
    by (simp add: submit_rejected [OF doc_host_page] completion_of_def page_after_def
        host_observed performed_def trace_host_page)
qed

theorem submit_failure_witness:
  "(trim [] = [] \<or> trim (js ''x@y.com'') = [] \<or> trim (js ''Hi'') = [])
    \<and> text_of (doc (page_after (submit_handler form_ref \<lparr>canceled = False\<rparr>
          (host_page [] (js ''x@y.com'') (js ''Hi'') [] [] (ready_page [] 0)))))
        (js ''form-message'') = Some (js ''Please fill in all fields.'')
    \<and> value_of (doc (page_after (submit_handler form_ref \<lparr>canceled = False\<rparr>
          (host_page [] (js ''x@y.com'') (js ''Hi'') [] [] (ready_page [] 0)))))
        (js ''name'') = Some []
    \<and> value_of (doc (page_after (submit_handler form_ref \<lparr>canceled = False\<rparr>
          (host_page [] (js ''x@y.com'') (js ''Hi'') [] [] (ready_page [] 0)))))
        (js ''email'') = Some (js ''x@y.com'')
    \<and> value_of (doc (page_after (submit_handler form_ref \<lparr>canceled = False\<rparr>
          (host_page [] (js ''x@y.com'') (js ''Hi'') [] [] (ready_page [] 0)))))
        (js ''message'') = Some (js ''Hi'')"
proof -
  have empty: "trim [] = [] \<or> trim (js ''x@y.com'') = [] \<or> trim (js ''Hi'') = []"
    by (simp add: trim_def)
  show ?thesis
    using empty submit_failure [OF empty, of "\<lparr>canceled = False\<rparr>" "[]" "[]" "ready_page [] 0"]
    by simp
qed

text \<open>
  C3. Whatever the page looks like and however the run of the handler ends (either
  branch, or a thrown error), the event is canceled afterwards, so the browser's default
  submission does not run.
\<close>

theorem default_always_prevented:
  "canceled (event_after (submit_handler this ev s))
    \<and> \<not> default_submission_runs (event_after (submit_handler this ev s))"
  unfolding submit_handler_def Let_def
  by (simp add: event_after_def default_submission_runs_def preventDefault_def
      split: sum.splits)

text \<open>
  C5. A value made of white space only trims to the empty string, and a submission with
  such a value in the name, the email or the message field takes the failure path: the
  status element reads "Please fill in all fields." and no reset is performed.
\<close>

theorem white_space_only_rejected:
  assumes "list_all is_white_space v"
  shows "trim v = []
    \<and> text_of (doc (page_after (submit_handler form_ref ev (host_page v e m t rest s))))
        (js ''form-message'') = Some (js ''Please fill in all fields.'')
    \<and> text_of (doc (page_after (submit_handler form_ref ev (host_page n v m t rest s))))
        (js ''form-message'') = Some (js ''Please fill in all fields.'')
    \<and> text_of (doc (page_after (submit_handler form_ref ev (host_page n e v t rest s))))
        (js ''form-message'') = Some (js ''Please fill in all fields.'')
    \<and> FormReset form_ref \<notin> set (performed (host_page v e m t rest s)
          (page_after (submit_handler form_ref ev (host_page v e m t rest s))))
    \<and> FormReset form_ref \<notin> set (performed (host_page n v m t rest s)
          (page_after (submit_handler form_ref ev (host_page n v m t rest s))))
    \<and> FormReset form_ref \<notin> set (performed (host_page n e v t rest s)
          (page_after (submit_handler form_ref ev (host_page n e v t rest s))))"
proof -
  have v: "trim v = []"
    using assms by (rule trim_white_space)
  have shown: "text_of (assign_text status_ref (js ''Please fill in all fields.'')
      (host_document a b c t rest)) (js ''form-message'') = Some (js ''Please fill in all fields.'')"
    for a b c
  proof -
    obtain rest' where "assign_text status_ref (js ''Please fill in all fields.'')
        (host_document a b c t rest)
      = host_document a b c (js ''Please fill in all fields.'') rest'"
      using rejected_document by blast
    then show ?thesis
      by (simp add: host_observed)
  qed
  from v show ?thesis
    by (simp add: submit_rejected [OF doc_host_page] page_after_def shown performed_def
        trace_host_page)
qed

theorem white_space_only_rejected_witness:
  "list_all is_white_space (js ''   '')
    \<and> trim (js ''   '') = []
    \<and> text_of (doc (page_after (submit_handler form_ref \<lparr>canceled = False\<rparr>
          (host_page (js ''   '') (js ''ada@example.com'') (js ''Hello'') [] []
            (ready_page [] 0)))))
        (js ''form-message'') = Some (js ''Please fill in all fields.'')
    \<and> text_of (doc (page_after (submit_handler form_ref \<lparr>canceled = False\<rparr>
          (host_page (js ''Ada'') (js ''   '') (js ''Hello'') [] [] (ready_page [] 0)))))
        (js ''form-message'') = Some (js ''Please fill in all fields.'')
    \<and> text_of (doc (page_after (submit_handler form_ref \<lparr>canceled = False\<rparr>
          (host_page (js ''Ada'') (js ''ada@example.com'') (js ''   '') [] []
            (ready_page [] 0)))))
        (js ''form-message'') = Some (js ''Please fill in all fields.'')"
proof -
  have blank: "list_all is_white_space (js ''   '')"
    by (simp add: js_def is_white_space_def)
  show ?thesis
    using blank
      white_space_only_rejected [OF blank, of "\<lparr>canceled = False\<rparr>"
        "js ''ada@example.com''" "js ''Hello''" "[]" "[]" "ready_page [] 0" "js ''Ada''"]
    by simp
qed







section \<open>Scenarios, computed from the definitions\<close>

text \<open>The definitions a run of the handler unfolds to.\<close>

lemmas dom_defs =
  submit_handler_def preventDefault_def value_trim_def set_textContent_def assign_text_def
  remove_children_def detach_def is_descendant_def reset_def form_reset_def exposes_def
  form_owner_def form_above_def form_by_id_def getElementById_def ready_page_def
  host_document_def form_element_def field_def status_element_def form_ref_def
  status_ref_def trim_def is_white_space_def js_def

lemma scenario_all_filled:
  "submit_handler form_ref \<lparr>canceled = False\<rparr>
      (ready_page (host_document (js ''Ada'') (js ''ada@example.com'') (js ''Hello'') [] []) 0)
    = (Normal, \<lparr>canceled = True\<rparr>,
       \<lparr>doc = host_document [] [] [] (js ''Thank you for reaching out!'') [],
        clock = 0, timers = [],
        trace = [SetTextContent 4 (js ''Thank you for reaching out!''), FormReset 0]\<rparr>)"
  by (simp add: dom_defs)

lemma scenario_name_missing:
  "submit_handler form_ref \<lparr>canceled = False\<rparr>
      (ready_page (host_document [] (js ''x@y.com'') (js ''Hi'') [] []) 0)
    = (Normal, \<lparr>canceled = True\<rparr>,
       \<lparr>doc = host_document [] (js ''x@y.com'') (js ''Hi'') (js ''Please fill in all fields.'') [],
        clock = 0, timers = [],
        trace = [SetTextContent 4 (js ''Please fill in all fields.'')]\<rparr>)"
  by (simp add: dom_defs)

lemma scenario_reset_shadowed:
  "submit_handler form_ref \<lparr>canceled = False\<rparr>
      (ready_page (host_document (js ''Ada'') (js ''ada@example.com'') (js ''Hello'') []
         [field (js ''reset'') (js ''Clear'')]) 0)
    = (Throw TypeError, \<lparr>canceled = True\<rparr>,
       \<lparr>doc = host_document (js ''Ada'') (js ''ada@example.com'') (js ''Hello'')
          (js ''Thank you for reaching out!'') [field (js ''reset'') (js ''Clear'')],
        clock = 0, timers = [],
        trace = [SetTextContent 4 (js ''Thank you for reaching out!'')]\<rparr>)"
  by (simp add: dom_defs)

lemma scenario_status_with_child:
  "submit_handler form_ref \<lparr>canceled = False\<rparr>
      (ready_page (host_document [] (js ''x@y.com'') (js ''Hi'') []
         [inside_status (progress_bar (js ''75%''))]) 0)
    = (Normal, \<lparr>canceled = True\<rparr>,
       \<lparr>doc = host_document [] (js ''x@y.com'') (js ''Hi'') (js ''Please fill in all fields.'')
          [(progress_bar (js ''75%''))\<lparr>connected := False\<rparr>],
        clock = 0, timers = [],
        trace = [SetTextContent 4 (js ''Please fill in all fields.'')]\<rparr>)"
  by (simp add: dom_defs inside_status_def progress_bar_def)

lemma scenario_status_missing:
  "submit_handler 0 \<lparr>canceled = False\<rparr>
      (ready_page [form_element, field (js ''name'') (js ''Ada''),
         field (js ''email'') (js ''ada@example.com''), field (js ''message'') (js ''Hello'')] 0)
    = (Throw TypeError, \<lparr>canceled = True\<rparr>,
       ready_page [form_element, field (js ''name'') (js ''Ada''),
         field (js ''email'') (js ''ada@example.com''), field (js ''message'') (js ''Hello'')] 0)"
  by (simp add: dom_defs)

lemma scenario_one_bar:
  "on_DOMContentLoaded (ready_page [progress_bar (js ''75%'')] 0)
    = \<lparr>doc = [progress_bar (js ''0%'')], clock = 0,
       timers = [(300, RestoreWidth 0 (js ''75%''))],
       trace = [SetStyleWidth 0 (js ''0%'')]\<rparr>"
  "advance 300 (on_DOMContentLoaded (ready_page [progress_bar (js ''75%'')] 0))
    = \<lparr>doc = [progress_bar (js ''75%'')], clock = 300, timers = [],
       trace = [SetStyleWidth 0 (js ''0%''), SetStyleWidth 0 (js ''75%'')]\<rparr>"
  by (simp_all add: on_DOMContentLoaded_def querySelectorAll_def animate_bar_def
      set_style_width_def setTimeout_def advance_def ready_page_def progress_bar_def)


section \<open>The animator on a page that has just been parsed\<close>

lemma animate_bar_parts:
  "doc (animate_bar s k) = (doc s)[k := (doc s ! k)\<lparr>style_width := js ''0%''\<rparr>]"
  "clock (animate_bar s k) = clock s"
  "timers (animate_bar s k) =
     timers s @ [(clock s + 300, RestoreWidth k (style_width (doc s ! k)))]"
  "trace (animate_bar s k) = trace s @ [SetStyleWidth k (js ''0%'')]"
  by (simp_all add: animate_bar_def set_style_width_def setTimeout_def Let_def)

lemma bars_clock: "clock (foldl animate_bar s ks) = clock s"
  by (induction ks arbitrary: s) (simp_all add: animate_bar_parts)

lemma bars_length: "length (doc (foldl animate_bar s ks)) = length (doc s)"
  by (induction ks arbitrary: s) (simp_all add: animate_bar_parts)

lemma bars_trace:
  "trace (foldl animate_bar s ks) = trace s @ map (\<lambda>k. SetStyleWidth k (js ''0%'')) ks"
  by (induction ks arbitrary: s) (simp_all add: animate_bar_parts)

lemma bars_untouched: "k \<notin> set ks \<Longrightarrow> doc (foldl animate_bar s ks) ! k = doc s ! k"
  by (induction ks arbitrary: s) (auto simp add: animate_bar_parts)

text \<open>Each bar is met once, so every closure captures the width the bar had before
  any write.\<close>

lemma bars_timers:
  "distinct ks \<Longrightarrow>
   timers (foldl animate_bar s ks) =
     timers s @ map (\<lambda>k. (clock s + 300, RestoreWidth k (style_width (doc s ! k)))) ks"
proof (induction ks arbitrary: s)
  case Nil
  show ?case by simp
next
  case (Cons k ks)
  have same: "style_width (doc (animate_bar s k) ! j) = style_width (doc s ! j)"
    if "j \<in> set ks" for j
  proof -
    from that Cons.prems have "k \<noteq> j" by auto
    then show ?thesis by (simp add: animate_bar_parts)
  qed
  have "timers (foldl animate_bar (animate_bar s k) ks) =
      timers (animate_bar s k) @
      map (\<lambda>j. (clock (animate_bar s k) + 300,
                 RestoreWidth j (style_width (doc (animate_bar s k) ! j)))) ks"
    using Cons.prems by (intro Cons.IH) simp
  also have "map (\<lambda>j. (clock (animate_bar s k) + 300,
                 RestoreWidth j (style_width (doc (animate_bar s k) ! j)))) ks
      = map (\<lambda>j. (clock s + 300, RestoreWidth j (style_width (doc s ! j)))) ks"
    using same by (simp add: animate_bar_parts)
  finally show ?case by (simp add: animate_bar_parts)
qed

lemma bars_zeroed:
  "k \<in> set ks \<Longrightarrow> k < length (doc s) \<Longrightarrow>
   doc (foldl animate_bar s ks) ! k = (doc s ! k)\<lparr>style_width := js ''0%''\<rparr>"
proof (induction ks arbitrary: s)
  case Nil
  then show ?case by simp
next
  case (Cons j ks)
  show ?case
  proof (cases "k \<in> set ks")
    case True
    with Cons.prems have "doc (foldl animate_bar (animate_bar s j) ks) ! k
        = (doc (animate_bar s j) ! k)\<lparr>style_width := js ''0%''\<rparr>"
      by (intro Cons.IH) (simp_all add: animate_bar_parts)
    with Cons.prems show ?thesis
      by (cases "j = k") (simp_all add: animate_bar_parts)
  next
    case False
    with Cons.prems have "j = k" by simp
    with False Cons.prems show ?thesis
      by (simp add: bars_untouched animate_bar_parts)
  qed
qed

lemma matched_distinct: "distinct (querySelectorAll d c)"
  by (simp add: querySelectorAll_def)

lemma matched_in_range: "k \<in> set (querySelectorAll d c) \<Longrightarrow> k < length d"
  by (simp add: querySelectorAll_def)

text \<open>Running a queue of restoring callbacks.\<close>

lemma restores_untouched:
  "k \<notin> set ks \<Longrightarrow>
   doc (foldl run_callback s (map (\<lambda>j. (T, RestoreWidth j (w j))) ks)) ! k = doc s ! k"
  by (induction ks arbitrary: s) (auto simp add: set_style_width_def)

lemma restores_written:
  "k \<in> set ks \<Longrightarrow> k < length (doc s) \<Longrightarrow>
   doc (foldl run_callback s (map (\<lambda>j. (T, RestoreWidth j (w j))) ks)) ! k
     = (doc s ! k)\<lparr>style_width := w k\<rparr>"
proof (induction ks arbitrary: s)
  case Nil
  then show ?case by simp
next
  case (Cons j ks)
  let ?s1 = "set_style_width j (w j) s"
  show ?case
  proof (cases "k \<in> set ks")
    case True
    with Cons.prems have "doc (foldl run_callback ?s1 (map (\<lambda>j. (T, RestoreWidth j (w j))) ks)) ! k
        = (doc ?s1 ! k)\<lparr>style_width := w k\<rparr>"
      by (intro Cons.IH) (simp_all add: set_style_width_def)
    with Cons.prems show ?thesis
      by (cases "j = k") (simp_all add: set_style_width_def)
  next
    case False
    with Cons.prems have "j = k" by simp
    with False Cons.prems show ?thesis
      by (simp add: restores_untouched set_style_width_def)
  qed
qed

lemma restores_trace:
  "trace (foldl run_callback s (map (\<lambda>j. (T, RestoreWidth j (w j))) ks))
     = trace s @ map (\<lambda>j. SetStyleWidth j (w j)) ks"
  by (induction ks arbitrary: s) (auto simp add: set_style_width_def)

text \<open>The page right after the listener has run, from a page with no pending timer.\<close>

lemma loaded_clock: "clock (on_DOMContentLoaded s) = clock s"
  by (simp add: on_DOMContentLoaded_def bars_clock)

lemma loaded_trace:
  "trace (on_DOMContentLoaded s) =
     trace s @ map (\<lambda>k. SetStyleWidth k (js ''0%'')) (querySelectorAll (doc s) (js ''progress''))"
  by (simp add: on_DOMContentLoaded_def bars_trace)

lemma loaded_timers:
  "timers (on_DOMContentLoaded s) =
     timers s @ map (\<lambda>k. (clock s + 300, RestoreWidth k (style_width (doc s ! k))))
       (querySelectorAll (doc s) (js ''progress''))"
  by (simp add: on_DOMContentLoaded_def bars_timers matched_distinct)

lemma loaded_bar:
  "bar \<in> set (querySelectorAll (doc s) (js ''progress'')) \<Longrightarrow>
   doc (on_DOMContentLoaded s) ! bar = (doc s ! bar)\<lparr>style_width := js ''0%''\<rparr>"
  by (simp add: on_DOMContentLoaded_def bars_zeroed matched_in_range)

lemma loaded_length: "length (doc (on_DOMContentLoaded s)) = length (doc s)"
  by (simp add: on_DOMContentLoaded_def bars_length)

lemma advance_before_due:
  assumes "timers s = []" and "dt < 300"
  shows "advance dt (on_DOMContentLoaded s) = (on_DOMContentLoaded s)\<lparr>clock := clock s + dt\<rparr>"
proof -
  let ?s1 = "on_DOMContentLoaded s"
  have due: "\<forall>x\<in>set (timers ?s1). fst x = clock s + 300"
    using assms(1) by (auto simp add: loaded_timers)
  with assms(2) have "filter (\<lambda>t. fst t \<le> clock s + dt) (timers ?s1) = []"
    by (auto simp add: filter_empty_conv)
  moreover from due assms(2)
  have "filter (\<lambda>t. \<not> fst t \<le> clock s + dt) (timers ?s1) = timers ?s1"
    by (auto simp add: filter_id_conv)
  ultimately show ?thesis
    by (simp add: advance_def loaded_clock)
qed

lemma advance_after_due:
  assumes "timers s = []" and "300 \<le> dt"
  shows "advance dt (on_DOMContentLoaded s) =
     foldl run_callback ((on_DOMContentLoaded s)\<lparr>clock := clock s + dt, timers := []\<rparr>)
       (map (\<lambda>k. (clock s + 300, RestoreWidth k (style_width (doc s ! k))))
          (querySelectorAll (doc s) (js ''progress'')))"
proof -
  let ?s1 = "on_DOMContentLoaded s"
  have queue: "timers ?s1 = map (\<lambda>k. (clock s + 300, RestoreWidth k (style_width (doc s ! k))))
      (querySelectorAll (doc s) (js ''progress''))"
    using assms(1) by (simp add: loaded_timers)
  have due: "\<forall>x\<in>set (timers ?s1). fst x = clock s + 300"
    by (auto simp add: queue)
  with assms(2) have expired: "filter (\<lambda>t. fst t \<le> clock s + dt) (timers ?s1) = timers ?s1"
    by (auto simp add: filter_id_conv)
  from due assms(2) have pending: "filter (\<lambda>t. \<not> fst t \<le> clock s + dt) (timers ?s1) = []"
    by (auto simp add: filter_empty_conv)
  have "map fst (timers ?s1) = replicate (length (timers ?s1)) (clock s + 300)"
    using due by (simp add: map_replicate_const [symmetric] cong: map_cong)
  then have "sorted (map fst (timers ?s1))"
    by simp
  then have in_order: "sort_key fst (timers ?s1) = timers ?s1"
    by (rule sort_key_id_if_sorted)
  have "advance dt ?s1 = foldl run_callback (?s1\<lparr>clock := clock s + dt, timers := []\<rparr>)
      (timers ?s1)"
    by (simp add: advance_def loaded_clock expired pending in_order)
  then show ?thesis
    by (simp only: queue)
qed

lemma restored_bar:
  assumes "timers s = []" and "300 \<le> dt"
    and "bar \<in> set (querySelectorAll (doc s) (js ''progress''))"
  shows "doc (advance dt (on_DOMContentLoaded s)) ! bar = doc s ! bar"
proof -
  have "bar < length (doc s)"
    using assms(3) by (rule matched_in_range)
  then have "doc (advance dt (on_DOMContentLoaded s)) ! bar
      = (doc (on_DOMContentLoaded s) ! bar)\<lparr>style_width := style_width (doc s ! bar)\<rparr>"
    using assms(3)
    by (simp add: advance_after_due [OF assms(1,2)] restores_written loaded_length)
  then show ?thesis
    using assms(3) by (simp add: loaded_bar)
qed

lemma doc_ready_page: "doc (ready_page d now) = d"
  and clock_ready_page: "clock (ready_page d now) = now"
  and timers_ready_page: "timers (ready_page d now) = []"
  and trace_ready_page: "trace (ready_page d now) = []"
  by (simp_all add: ready_page_def)

text \<open>
  C4. For every element that matches the selector when the document is ready: the
  listener queues a callback, due 300 ms later, that holds the width the element was
  configured with; right after the listener the element's width is '0%' and stays so
  while fewer than 300 ms have passed; once 300 ms have passed the width is the captured,
  configured one again.
\<close>

theorem bar_zeroed_then_restored:
  assumes "bar \<in> set (querySelectorAll d (js ''progress''))"
  shows "(now + 300, RestoreWidth bar (style_width (d ! bar)))
        \<in> set (timers (on_DOMContentLoaded (ready_page d now)))
    \<and> style_width (doc (on_DOMContentLoaded (ready_page d now)) ! bar) = js ''0%''
    \<and> (early < 300 \<longrightarrow>
        style_width (doc (advance early (on_DOMContentLoaded (ready_page d now))) ! bar)
          = js ''0%'')
    \<and> (300 \<le> late \<longrightarrow>
        style_width (doc (advance late (on_DOMContentLoaded (ready_page d now))) ! bar)
          = style_width (d ! bar))"
proof -
  have matched: "bar \<in> set (querySelectorAll (doc (ready_page d now)) (js ''progress''))"
    using assms by (simp add: doc_ready_page)
  have queued: "(now + 300, RestoreWidth bar (style_width (d ! bar)))
      \<in> set (timers (on_DOMContentLoaded (ready_page d now)))"
    using assms by (simp add: loaded_timers doc_ready_page clock_ready_page timers_ready_page)
  have zero: "style_width (doc (on_DOMContentLoaded (ready_page d now)) ! bar) = js ''0%''"
    by (simp add: loaded_bar [OF matched])
  have still: "style_width (doc (advance early (on_DOMContentLoaded (ready_page d now))) ! bar)
      = js ''0%''" if "early < 300"
    using that zero by (simp add: advance_before_due [OF timers_ready_page])
  have restored: "style_width (doc (advance late (on_DOMContentLoaded (ready_page d now))) ! bar)
      = style_width (d ! bar)" if "300 \<le> late"
    using restored_bar [OF timers_ready_page that matched] by (simp add: doc_ready_page)
  from queued zero still restored show ?thesis
    by blast
qed


theorem bar_zeroed_then_restored_witness:
  "0 \<in> set (querySelectorAll [progress_bar (js ''75%'')] (js ''progress''))
    \<and> style_width (doc (on_DOMContentLoaded (ready_page [progress_bar (js ''75%'')] 0)) ! 0)
        = js ''0%''
    \<and> style_width
          (doc (advance 299 (on_DOMContentLoaded (ready_page [progress_bar (js ''75%'')] 0))) ! 0)
        = js ''0%''
    \<and> style_width
          (doc (advance 300 (on_DOMContentLoaded (ready_page [progress_bar (js ''75%'')] 0))) ! 0)
        = js ''75%''"
proof -
  have matched: "0 \<in> set (querySelectorAll [progress_bar (js ''75%'')] (js ''progress''))"
    by (simp add: querySelectorAll_def progress_bar_def)
  show ?thesis
    using matched bar_zeroed_then_restored [OF matched, of 0 299 300]
    by (simp add: progress_bar_def)
qed

text \<open>
  C7. For a matched element whose configured width is the empty string (the value an
  unset width reads as), the queued callback holds the empty string. The listener has
  set the width to '0%', and so it stays while fewer than 300 ms have passed; once 300 ms
  have passed the callback has written the captured value back: the width is the empty
  string again, as captured, and the element is what it was.
\<close>

theorem empty_width_restored:
  assumes "bar \<in> set (querySelectorAll d (js ''progress''))"
    and "style_width (d ! bar) = []"
  shows "(now + 300, RestoreWidth bar [])
        \<in> set (timers (on_DOMContentLoaded (ready_page d now)))
    \<and> style_width (doc (on_DOMContentLoaded (ready_page d now)) ! bar) = js ''0%''
    \<and> style_width (doc (on_DOMContentLoaded (ready_page d now)) ! bar)
        \<noteq> style_width (d ! bar)
    \<and> (early < 300 \<longrightarrow>
        style_width (doc (advance early (on_DOMContentLoaded (ready_page d now))) ! bar)
          = js ''0%'')
    \<and> (300 \<le> late \<longrightarrow>
        SetStyleWidth bar []
          \<in> set (trace (advance late (on_DOMContentLoaded (ready_page d now))))
        \<and> style_width (doc (advance late (on_DOMContentLoaded (ready_page d now))) ! bar)
          = []
        \<and> doc (advance late (on_DOMContentLoaded (ready_page d now))) ! bar = d ! bar)"
proof -
  have matched: "bar \<in> set (querySelectorAll (doc (ready_page d now)) (js ''progress''))"
    using assms(1) by (simp add: doc_ready_page)
  have queued: "(now + 300, RestoreWidth bar [])
      \<in> set (timers (on_DOMContentLoaded (ready_page d now)))"
    using assms
    by (simp add: loaded_timers doc_ready_page clock_ready_page timers_ready_page image_iff)
  have zero: "style_width (doc (on_DOMContentLoaded (ready_page d now)) ! bar) = js ''0%''"
    by (simp add: loaded_bar [OF matched])
  have changed: "style_width (doc (on_DOMContentLoaded (ready_page d now)) ! bar)
      \<noteq> style_width (d ! bar)"
    using zero assms(2) by (simp add: js_def)
  have still: "style_width (doc (advance early (on_DOMContentLoaded (ready_page d now))) ! bar)
      = js ''0%''" if "early < 300"
    using that zero by (simp add: advance_before_due [OF timers_ready_page])
  have written: "SetStyleWidth bar []
      \<in> set (trace (advance late (on_DOMContentLoaded (ready_page d now))))" if "300 \<le> late"
    using assms
    by (simp add: advance_after_due [OF timers_ready_page that] restores_trace
        doc_ready_page image_iff)
  have restored: "doc (advance late (on_DOMContentLoaded (ready_page d now))) ! bar = d ! bar"
    if "300 \<le> late"
    using restored_bar [OF timers_ready_page that matched]
    by (simp add: doc_ready_page)
  from queued zero changed still written restored assms(2) show ?thesis
    by simp
qed

theorem empty_width_restored_witness:
  "0 \<in> set (querySelectorAll [progress_bar []] (js ''progress''))
    \<and> style_width ([progress_bar []] ! 0) = []
    \<and> (300, RestoreWidth 0 [])
        \<in> set (timers (on_DOMContentLoaded (ready_page [progress_bar []] 0)))
    \<and> style_width (doc (on_DOMContentLoaded (ready_page [progress_bar []] 0)) ! 0)
        = js ''0%''
    \<and> style_width (doc (advance 299 (on_DOMContentLoaded (ready_page [progress_bar []] 0))) ! 0)
        = js ''0%''
    \<and> style_width (doc (advance 300 (on_DOMContentLoaded (ready_page [progress_bar []] 0))) ! 0)
        = []"
proof -
  have matched: "0 \<in> set (querySelectorAll [progress_bar []] (js ''progress''))"
    by (simp add: querySelectorAll_def progress_bar_def)
  have unset: "style_width ([progress_bar []] ! 0) = []"
    by (simp add: progress_bar_def)
  show ?thesis
    using matched unset empty_width_restored [OF matched unset, of 0 299 300]
    by simp
qed

text \<open>
  C8. When no element matches the selector, the listener returns the page as it found
  it: no width is written (nothing is added to the trace, the document is the same) and
  no callback is queued.
\<close>

theorem no_bars_no_effect:
  assumes "querySelectorAll (doc s) (js ''progress'') = []"
  shows "on_DOMContentLoaded s = s
    \<and> performed s (on_DOMContentLoaded s) = []
    \<and> timers (on_DOMContentLoaded s) = timers s
    \<and> doc (on_DOMContentLoaded s) = doc s"
proof -
  have "on_DOMContentLoaded s = s"
    using assms by (simp add: on_DOMContentLoaded_def)
  then show ?thesis
    by (simp add: performed_def)
qed

theorem no_bars_no_effect_witness:
  "querySelectorAll (doc (ready_page (host_document [] [] [] [] []) 0)) (js ''progress'') = []
    \<and> on_DOMContentLoaded (ready_page (host_document [] [] [] [] []) 0)
        = ready_page (host_document [] [] [] [] []) 0
    \<and> timers (on_DOMContentLoaded (ready_page (host_document [] [] [] [] []) 0)) = []"
proof -
  have none: "querySelectorAll (doc (ready_page (host_document [] [] [] [] []) 0))
      (js ''progress'') = []"
    by (simp add: querySelectorAll_def ready_page_def host_document_def form_element_def
        field_def status_element_def)
  show ?thesis
    using none no_bars_no_effect [OF none]
    by (simp add: timers_ready_page)
qed

text \<open>
  C10. The writes of the listener are one \<^verbatim>\<open>style.width = '0%'\<close> per matched
  element and nothing else, whatever width (and unit) the element was configured with;
  the width a callback holds is the one read before that write; so once the callback
  has run, a matched element's width is '0%' exactly when its configured width was '0%'.
\<close>

theorem zero_percent_whatever_the_unit:
  assumes "bar \<in> set (querySelectorAll d (js ''progress''))"
  shows "trace (on_DOMContentLoaded (ready_page d now))
        = map (\<lambda>k. SetStyleWidth k (js ''0%'')) (querySelectorAll d (js ''progress''))
    \<and> style_width (doc (on_DOMContentLoaded (ready_page d now)) ! bar) = js ''0%''
    \<and> timers (on_DOMContentLoaded (ready_page d now))
        = map (\<lambda>k. (now + 300, RestoreWidth k (style_width (d ! k))))
            (querySelectorAll d (js ''progress''))
    \<and> (300 \<le> late \<longrightarrow>
        (style_width (doc (advance late (on_DOMContentLoaded (ready_page d now))) ! bar)
          = js ''0%'')
        = (style_width (d ! bar) = js ''0%''))"
proof -
  have matched: "bar \<in> set (querySelectorAll (doc (ready_page d now)) (js ''progress''))"
    using assms by (simp add: doc_ready_page)
  have writes: "trace (on_DOMContentLoaded (ready_page d now))
      = map (\<lambda>k. SetStyleWidth k (js ''0%'')) (querySelectorAll d (js ''progress''))"
    by (simp add: loaded_trace doc_ready_page trace_ready_page)
  have zero: "style_width (doc (on_DOMContentLoaded (ready_page d now)) ! bar) = js ''0%''"
    by (simp add: loaded_bar [OF matched])
  have queue: "timers (on_DOMContentLoaded (ready_page d now))
      = map (\<lambda>k. (now + 300, RestoreWidth k (style_width (d ! k))))
          (querySelectorAll d (js ''progress''))"
    by (simp add: loaded_timers doc_ready_page clock_ready_page timers_ready_page)
  have restored: "style_width (doc (advance late (on_DOMContentLoaded (ready_page d now))) ! bar)
      = style_width (d ! bar)" if "300 \<le> late"
    using restored_bar [OF timers_ready_page that matched] by (simp add: doc_ready_page)
  from writes zero queue restored show ?thesis
    by simp
qed

theorem zero_percent_whatever_the_unit_witness:
  "1 \<in> set (querySelectorAll [progress_bar (js ''0%''), progress_bar (js ''120px'')]
        (js ''progress''))
    \<and> trace (on_DOMContentLoaded
          (ready_page [progress_bar (js ''0%''), progress_bar (js ''120px'')] 0))
        = [SetStyleWidth 0 (js ''0%''), SetStyleWidth 1 (js ''0%'')]
    \<and> style_width (doc (on_DOMContentLoaded
          (ready_page [progress_bar (js ''0%''), progress_bar (js ''120px'')] 0)) ! 1)
        = js ''0%''
    \<and> style_width (doc (advance 300 (on_DOMContentLoaded
          (ready_page [progress_bar (js ''0%''), progress_bar (js ''120px'')] 0))) ! 1)
        \<noteq> js ''0%''"
proof -
  have matched: "1 \<in> set (querySelectorAll
      [progress_bar (js ''0%''), progress_bar (js ''120px'')] (js ''progress''))"
    by (simp add: querySelectorAll_def progress_bar_def)
  have all: "querySelectorAll [progress_bar (js ''0%''), progress_bar (js ''120px'')]
      (js ''progress'') = [0, 1]"
    by (simp add: querySelectorAll_def progress_bar_def upt_rec)
  have configured: "style_width (progress_bar (js ''120px'')) = js ''120px''"
    by (simp add: progress_bar_def)
  have differ: "js ''120px'' \<noteq> js ''0%''"
    by (simp add: js_def)
  show ?thesis
    using matched zero_percent_whatever_the_unit [OF matched, of 0 300]
    by (simp add: all configured differ)
qed

end
